theory Spec2Isabelle
  imports Main "HOL-Library.Multiset" "HOL-Library.Log_Nat" "HOL-Library.Sublist"
begin

section \<open>Python values used by bot.py\<close>

text \<open>
  The exceptions that the modelled part of \<^verbatim>\<open>bot.py\<close> can raise. \<open>LoadError\<close> stands for
  whatever \<^verbatim>\<open>fetch_csv\<close> raises (HTTP status, I/O, CSV parsing). \<open>PatternNotModelled\<close> is
  not a Python exception: it marks a regular expression outside the fragment of \<^verbatim>\<open>re\<close>
  that this development gives a meaning to.
\<close>

datatype py_error =
    KeyError
  | ValueError
  | IndexingError
  | LoadError
  | PatternNotModelled

subsection \<open>Binary64 floats\<close>

text \<open>
  A Python \<^verbatim>\<open>float\<close> is an IEEE 754 binary64 number. A finite float is modelled by the
  rational number it denotes, and every arithmetic operation is the exact operation
  followed by rounding to the nearest float, ties to even (\<open>fl\<close>). Subnormal spacing is
  modelled; overflow to infinity, the sign of zero and NaN are not (NaN appears only as a
  missing cell, see \<open>offense_pct\<close> below).
\<close>

type_synonym pyfloat = rat

definition round_half_even :: "rat \<Rightarrow> int" where
  "round_half_even x =
     (let f = \<lfloor>x\<rfloor>; d = x - of_int f
      in if d < 1 / 2 then f else if 1 / 2 < d then f + 1 else if even f then f else f + 1)"

definition pow2 :: "int \<Rightarrow> rat" where
  "pow2 k = (if 0 \<le> k then 2 ^ nat k else 1 / 2 ^ nat (- k))"

definition binade :: "rat \<Rightarrow> int" where
  \<comment> \<open>the exponent \<open>e\<close> with \<open>2^e \<le> |x| < 2^(e+1)\<close>, for \<open>x \<noteq> 0\<close>\<close>
  "binade x =
     (case quotient_of \<bar>x\<bar> of (p, q) \<Rightarrow>
        let e = bitlen p - bitlen q
        in if pow2 e \<le> \<bar>x\<bar> then e else e - 1)"

definition fl :: "rat \<Rightarrow> pyfloat" where
  "fl x =
     (if x = 0 then 0
      else let u = pow2 (max (binade x) (- 1022) - 52)
           in of_int (round_half_even (x / u)) * u)"

definition fadd :: "pyfloat \<Rightarrow> pyfloat \<Rightarrow> pyfloat" where
  "fadd x y = fl (x + y)"

definition fmul :: "pyfloat \<Rightarrow> pyfloat \<Rightarrow> pyfloat" where
  "fmul x y = fl (x * y)"

definition fdiv :: "pyfloat \<Rightarrow> pyfloat \<Rightarrow> pyfloat" where
  "fdiv x y = fl (x / y)"

definition py_float :: "rat \<Rightarrow> pyfloat" where
  \<comment> \<open>\<^verbatim>\<open>float(v)\<close> of a number: the nearest float (the identity on a float)\<close>
  "py_float v = fl v"

definition py_or :: "rat \<Rightarrow> rat \<Rightarrow> rat" where
  \<comment> \<open>\<^verbatim>\<open>v or d\<close> on numbers: \<open>d\<close> when \<open>v\<close> is falsy, that is zero\<close>
  "py_or v d = (if v = 0 then d else v)"

definition py_round :: "pyfloat \<Rightarrow> nat \<Rightarrow> pyfloat" where
  \<comment> \<open>\<^verbatim>\<open>round(x, ndigits)\<close>: the exact value of \<open>x\<close> rounded half-even to \<open>ndigits\<close>
      decimals, then the nearest float\<close>
  "py_round x ndigits = fl (of_int (round_half_even (x * 10 ^ ndigits)) / 10 ^ ndigits)"

section \<open>Data\<close>

text \<open>
  One row of the weekly statistics frame. A missing \<^verbatim>\<open>player_id\<close> or \<^verbatim>\<open>player_name\<close> cell is
  \<open>None\<close> (pandas reads it as NaN). \<open>cells\<close> holds the numeric stat columns by column label.
\<close>

record stat_row =
  season :: int
  week :: int
  season_type :: string
  team :: string
  player_id :: "string option"
  player_name :: "string option"
  cells :: "(string \<times> rat) list"

text \<open>One scoring preset: the nine weights of a \<^verbatim>\<open>SCORING_PRESETS\<close> entry.\<close>

record scoring =
  w_receptions :: pyfloat
  w_pass_yd :: pyfloat
  w_pass_td :: pyfloat
  w_int :: pyfloat
  w_rush_yd :: pyfloat
  w_rush_td :: pyfloat
  w_rec_yd :: pyfloat
  w_rec_td :: pyfloat
  w_fumbles_lost :: pyfloat

definition preset :: "pyfloat \<Rightarrow> scoring" where
  "preset rec_w =
     \<lparr>w_receptions = rec_w, w_pass_yd = fl (4 / 100), w_pass_td = 4, w_int = - 2,
      w_rush_yd = fl (1 / 10), w_rush_td = 6, w_rec_yd = fl (1 / 10), w_rec_td = 6,
      w_fumbles_lost = - 2\<rparr>"


section \<open>The scoring calculator\<close>

definition row_get :: "stat_row \<Rightarrow> string \<Rightarrow> rat \<Rightarrow> rat" where
  \<comment> \<open>\<^verbatim>\<open>row.get(k, d)\<close>: the cell, or \<open>d\<close> when the row has no column \<open>k\<close>\<close>
  "row_get row k d = (case map_of (cells row) k of None \<Rightarrow> d | Some v \<Rightarrow> v)"

definition fantasy_points :: "stat_row \<Rightarrow> scoring \<Rightarrow> pyfloat" where
  "fantasy_points row sc =
     (let g = (\<lambda>k. py_float (py_or (row_get row k 0) 0));
          pts = 0;
          pts = fadd pts (fmul (g ''receptions'') (w_receptions sc));
          pts = fadd pts (fmul (g ''passing_yards'') (w_pass_yd sc));
          pts = fadd pts (fmul (g ''passing_tds'') (w_pass_td sc));
          pts = fadd pts (fmul (g ''interceptions'') (w_int sc));
          pts = fadd pts (fmul (g ''rushing_yards'') (w_rush_yd sc));
          pts = fadd pts (fmul (g ''rushing_tds'') (w_rush_td sc));
          pts = fadd pts (fmul (g ''receiving_yards'') (w_rec_yd sc));
          pts = fadd pts (fmul (g ''receiving_tds'') (w_rec_td sc));
          pts = fadd pts (fmul (g ''fumbles_lost'') (w_fumbles_lost sc))
      in py_round pts 2)"

section \<open>Strings and patterns\<close>

definition lower_char :: "char \<Rightarrow> char" where
  "lower_char c =
     (let n = (of_char c :: nat) in if 65 \<le> n \<and> n \<le> 90 then char_of (n + 32) else c)"

definition py_lower :: "string \<Rightarrow> string" where
  \<comment> \<open>\<^verbatim>\<open>str.lower()\<close> on ASCII text\<close>
  "py_lower s = map lower_char s"

text \<open>
  \<^verbatim>\<open>Series.str.contains(pat)\<close> is called with its defaults, so \<open>pat\<close> is a regular
  expression handed to \<^verbatim>\<open>re.search\<close>. The fragment of \<^verbatim>\<open>re\<close> given a meaning here:
  an ordinary character matches itself and \<^verbatim>\<open>.\<close> matches any character but a newline.
  A pattern with any other special character is \<open>PatternNotModelled\<close>.
\<close>

datatype re_atom = Lit char | AnyChar

definition re_special :: "char \<Rightarrow> bool" where
  "re_special c = (c \<in> set (CHR 0x5C # ''^$*+?{}[]|()''))"

fun re_compile :: "string \<Rightarrow> py_error + re_atom list" where
  "re_compile [] = Inr []"
| "re_compile (c # cs) =
     (if re_special c then Inl PatternNotModelled
      else case re_compile cs of
             Inl e \<Rightarrow> Inl e
           | Inr as \<Rightarrow> Inr ((if c = CHR ''.'' then AnyChar else Lit c) # as))"

fun atom_matches :: "re_atom \<Rightarrow> char \<Rightarrow> bool" where
  "atom_matches (Lit d) c = (c = d)"
| "atom_matches AnyChar c = (c \<noteq> CHR 0x0A)"

fun re_match_here :: "re_atom list \<Rightarrow> string \<Rightarrow> bool" where
  "re_match_here [] s = True"
| "re_match_here (a # as) [] = False"
| "re_match_here (a # as) (c # cs) = (atom_matches a c \<and> re_match_here as cs)"

fun re_search :: "re_atom list \<Rightarrow> string \<Rightarrow> bool" where
  "re_search as [] = re_match_here as []"
| "re_search as (c # cs) = (re_match_here as (c # cs) \<or> re_search as cs)"

definition str_contains :: "string option list \<Rightarrow> string \<Rightarrow> py_error + bool option list" where
  \<comment> \<open>a missing string gives a missing answer\<close>
  "str_contains col pat =
     (case re_compile pat of
        Inl e \<Rightarrow> Inl e
      | Inr as \<Rightarrow> Inr (map (map_option (re_search as)) col))"

section \<open>The identity resolver\<close>

text \<open>
  \<^verbatim>\<open>compute_ppg\<close>, the two filters and the name mask. Indexing a frame with a mask that
  holds a missing value raises \<^verbatim>\<open>ValueError\<close>.
\<close>

definition select_candidates ::
  "int \<Rightarrow> stat_row list \<Rightarrow> string \<Rightarrow> int \<Rightarrow> int \<Rightarrow> py_error + stat_row list" where
  "select_candidates SEASON stats pname start_week end_week =
     (let stats = filter (\<lambda>r. season r = SEASON \<and> season_type r = ''REG'') stats;
          stats = filter (\<lambda>r. start_week \<le> week r \<and> week r \<le> end_week) stats
      in case str_contains (map (\<lambda>r. map_option py_lower (player_name r)) stats)
                (py_lower pname) of
           Inl e \<Rightarrow> Inl e
         | Inr msk \<Rightarrow>
             if None \<in> set msk then Inl ValueError
             else Inr (map fst (filter (\<lambda>(r, m). m = Some True) (zip stats msk))))"

text \<open>One row of the identity map, \<^verbatim>\<open>players[["gsis_id", "display_name", "pfr_id"]]\<close>.\<close>

record player_rec =
  gsis_id :: "string option"
  display_name :: "string option"
  pfr_id :: "string option"

text \<open>
  \<^verbatim>\<open>left.merge(right, how="left")\<close>: every left row, in order, once per matching right
  row, or once with the right columns missing when nothing matches. pandas matches a
  missing key with a missing key, which is what equality on \<open>option\<close> does.
\<close>

definition merge_left :: "('l \<Rightarrow> 'r \<Rightarrow> bool) \<Rightarrow> 'l list \<Rightarrow> 'r list \<Rightarrow> ('l \<times> 'r option) list" where
  "merge_left on ls rs =
     concat (map (\<lambda>l. case filter (on l) rs of
                          [] \<Rightarrow> [(l, None)]
                        | m # ms \<Rightarrow> map (\<lambda>r. (l, Some r)) (m # ms)) ls)"

type_synonym cand_row = "stat_row \<times> player_rec option"

definition enrich :: "stat_row list \<Rightarrow> player_rec list \<Rightarrow> cand_row list" where
  "enrich cand players = merge_left (\<lambda>r p. player_id r = gsis_id p) cand players"

definition cand_pfr_id :: "cand_row \<Rightarrow> string option" where
  "cand_pfr_id c = (case snd c of None \<Rightarrow> None | Some p \<Rightarrow> pfr_id p)"

section \<open>The snap join\<close>

text \<open>One row of \<^verbatim>\<open>snaps_small\<close>.\<close>

record snap_rec =
  snap_season :: int
  snap_week :: int
  snap_team :: string
  player :: "string option"
  pfr_player_id :: "string option"
  offense_pct :: "pyfloat option"

definition primary_on :: "cand_row \<Rightarrow> snap_rec \<Rightarrow> bool" where
  "primary_on c s =
     (season (fst c) = snap_season s \<and> week (fst c) = snap_week s \<and> team (fst c) = snap_team s
      \<and> cand_pfr_id c = pfr_player_id s)"

definition fallback_on :: "cand_row \<Rightarrow> snap_rec \<Rightarrow> bool" where
  "fallback_on c s =
     (season (fst c) = snap_season s \<and> week (fst c) = snap_week s \<and> team (fst c) = snap_team s
      \<and> player_name (fst c) = player s)"

definition offense_pct_col :: "('l \<times> snap_rec option) list \<Rightarrow> pyfloat option list" where
  \<comment> \<open>the \<^verbatim>\<open>offense_pct\<close> column of a merged frame\<close>
  "offense_pct_col joined = map (\<lambda>(l, m). case m of None \<Rightarrow> None | Some s \<Rightarrow> offense_pct s) joined"

definition bool_index :: "'a list \<Rightarrow> bool list \<Rightarrow> py_error + 'a list" where
  \<comment> \<open>\<^verbatim>\<open>frame[mask]\<close>: the mask is reindexed to the frame's labels \<open>0..n-1\<close>, which must
      all be labels of the mask\<close>
  "bool_index xs msk =
     (if length xs \<le> length msk then Inr (map fst (filter snd (zip xs msk)))
      else Inl IndexingError)"

fun scatter :: "'a list \<Rightarrow> bool list \<Rightarrow> 'a list \<Rightarrow> 'a list" where
  "scatter (x # xs) (m # ms) vs =
     (if m then (case vs of [] \<Rightarrow> x # scatter xs ms [] | v # vs' \<Rightarrow> v # scatter xs ms vs')
      else x # scatter xs ms vs)"
| "scatter xs ms vs = xs"

definition loc_assign :: "'a list \<Rightarrow> bool list \<Rightarrow> 'a list \<Rightarrow> py_error + 'a list" where
  \<comment> \<open>\<^verbatim>\<open>frame.loc[mask, col] = values\<close>: as many values as rows selected, or \<^verbatim>\<open>ValueError\<close>\<close>
  "loc_assign col msk vals =
     (if length vals = length (filter id msk) then Inr (scatter col msk vals)
      else Inl ValueError)"

definition fillna :: "pyfloat \<Rightarrow> pyfloat option list \<Rightarrow> pyfloat list" where
  "fillna d col = map (\<lambda>p. case p of None \<Rightarrow> d | Some v \<Rightarrow> v) col"

definition attach_snap_pct :: "cand_row list \<Rightarrow> snap_rec list \<Rightarrow> py_error + (cand_row \<times> pyfloat) list" where
  "attach_snap_pct cand snaps =
     (let joined = merge_left primary_on cand snaps;
          pct = offense_pct_col joined;
          missing = map (\<lambda>p. p = None) pct
      in case (if True \<in> set missing then
                 (case bool_index cand missing of
                    Inl e \<Rightarrow> Inl e
                  | Inr sel \<Rightarrow>
                      let fallback = merge_left fallback_on sel snaps
                      in loc_assign pct missing (offense_pct_col fallback))
               else Inr pct) of
           Inl e \<Rightarrow> Inl e
         | Inr pct \<Rightarrow> Inr (zip (map fst joined) (fillna 0 pct)))"

section \<open>The qualification aggregator\<close>

text \<open>
  \<^verbatim>\<open>Series.mean()\<close> of a float column without missing values: the sum divided by the
  count, in float arithmetic. The sum is taken left to right here, which is the order of
  NumPy's reduction for fewer than eight values.
\<close>

definition series_mean :: "pyfloat list \<Rightarrow> pyfloat" where
  "series_mean xs = fdiv (foldl fadd 0 xs) (of_nat (length xs))"

text \<open>The threshold is a float already, so \<^verbatim>\<open>float(min_snap_pct)\<close> is the identity.\<close>

definition aggregate :: "(cand_row \<times> pyfloat) list \<Rightarrow> pyfloat \<Rightarrow> scoring \<Rightarrow> pyfloat \<times> nat" where
  "aggregate joined min_snap_pct sc =
     (let qualified = filter (\<lambda>(r, pct). min_snap_pct \<le> pct) joined
      in if qualified = [] then (0, 0)
         else let fp = map (\<lambda>(r, pct). fantasy_points (fst r) sc) qualified;
                  ppg = series_mean fp;
                  n = length qualified
              in (py_round ppg 2, n))"

section \<open>The pipeline\<close>

text \<open>
  What the three loaders return when \<^verbatim>\<open>compute_ppg\<close> runs (a frame, or the exception
  raised), and the module constant \<^verbatim>\<open>SEASON\<close>.
\<close>

record dataset =
  SEASON :: int
  load_player_stats :: "py_error + stat_row list"
  load_snap_counts :: "py_error + snap_rec list"
  load_players_map :: "py_error + player_rec list"


section \<open>Closing completed bets\<close>

text \<open>
  \<^verbatim>\<open>get_current_max_week\<close> catches every exception of its body and returns 0 then.
\<close>

definition get_current_max_week :: "dataset \<Rightarrow> int" where
  "get_current_max_week d =
     (case load_player_stats d of
        Inl e \<Rightarrow> 0
      | Inr stats \<Rightarrow>
          (case map week (filter (\<lambda>r. season r = SEASON d \<and> season_type r = ''REG'') stats) of
             [] \<Rightarrow> 0
           | w # ws \<Rightarrow> fold max ws w))"

text \<open>
  One row of the \<^verbatim>\<open>bets\<close> table; a column without \<^verbatim>\<open>NOT NULL\<close> may hold NULL (\<open>None\<close>).
\<close>

record bet =
  bet_id :: int
  creator_discord_id :: string
  player_a :: string
  player_b :: string
  description :: "string option"
  bet_scoring :: string
  bet_min_snap_pct :: pyfloat
  bet_season :: int
  start_week :: "int option"
  end_week :: "int option"
  participants :: "string option"
  is_active :: "int option"
  created_at :: string

definition update_where :: "bet \<Rightarrow> int \<Rightarrow> int \<Rightarrow> bool" where
  \<comment> \<open>\<^verbatim>\<open>WHERE season=? AND is_active=1 AND end_week<=?\<close>; a comparison with NULL is not true\<close>
  "update_where b s max_week =
     (bet_season b = s \<and> is_active b = Some 1
      \<and> (case end_week b of None \<Rightarrow> False | Some e \<Rightarrow> e \<le> max_week))"

definition close_completed_bets :: "dataset \<Rightarrow> bet list \<Rightarrow> bet list" where
  "close_completed_bets d bets =
     (let max_week = get_current_max_week d
      in if max_week \<le> 0 then bets
         else map (\<lambda>b. if update_where b (SEASON d) max_week then b\<lparr>is_active := Some 0\<rparr> else b) bets)"

section \<open>Reference definitions and example data\<close>



definition game :: "int \<Rightarrow> (string \<times> rat) list \<Rightarrow> stat_row" where
  "game w cs =
     \<lparr>season = 2025, week = w, season_type = ''REG'', team = ''BUF'',
      player_id = Some ''00-0034857'', player_name = Some ''J.Allen'', cells = cs\<rparr>"


text \<open>Example tables.\<close>

definition ex_players :: "player_rec list" where
  "ex_players = [\<lparr>gsis_id = Some ''00-0034857'', display_name = Some ''Josh Allen'', pfr_id = Some ''AlleJo02''\<rparr>]"

definition shakir :: "int \<Rightarrow> stat_row" where
  "shakir w = \<lparr>season = 2025, week = w, season_type = ''REG'', team = ''BUF'',
      player_id = Some ''00-0037261'', player_name = Some ''K.Shakir'', cells = [(''receptions'', 4)]\<rparr>"

definition ex_stats :: "stat_row list" where
  "ex_stats = [game 1 [(''rushing_yards'', 1)], game 2 [(''rushing_yards'', 2)], shakir 1, shakir 2,
               (game 19 [(''rushing_yards'', 30)])\<lparr>season_type := ''POST''\<rparr>]"

definition snap :: "int \<Rightarrow> string \<Rightarrow> string \<Rightarrow> rat \<Rightarrow> snap_rec" where
  "snap w nm pfr pct = \<lparr>snap_season = 2025, snap_week = w, snap_team = ''BUF'', player = Some nm,
      pfr_player_id = Some pfr, offense_pct = Some pct\<rparr>"

definition ex_snaps :: "snap_rec list" where
  "ex_snaps = [snap 1 ''Josh Allen'' ''AlleJo02'' 10, snap 2 ''Josh Allen'' ''AlleJo02'' 40,
               snap 1 ''K.Shakir'' ''ShakKh00'' 80]"

definition ex_data :: dataset where
  "ex_data = \<lparr>SEASON = 2025, load_player_stats = Inr ex_stats, load_snap_counts = Inr ex_snaps,
               load_players_map = Inr ex_players\<rparr>"


definition ex_cand :: "cand_row list" where
  "ex_cand = enrich [game 1 [(''rushing_yards'', 1)], game 2 [(''rushing_yards'', 2)], shakir 1, shakir 2] ex_players"

definition ex_joined :: "(cand_row \<times> pyfloat) list" where
  "ex_joined = zip ex_cand [10, 40, 80, 0]"

definition ex_bets :: "bet list" where
  "ex_bets =
     (let b = \<lparr>bet_id = 1, creator_discord_id = ''42'', player_a = ''Josh Allen'', player_b = ''Khalil Shakir'',
                description = Some ''qb vs wr'', bet_scoring = ''PPR'', bet_min_snap_pct = 25,
                bet_season = 2025, start_week = Some 1, end_week = Some 2, participants = Some ''42,43'',
                is_active = Some 1, created_at = ''2025-09-01T12:00:00''\<rparr>
      in [b, b\<lparr>bet_id := 2, end_week := Some 18\<rparr>, b\<lparr>bet_id := 3, bet_season := 2024\<rparr>,
          b\<lparr>bet_id := 4, is_active := Some 0\<rparr>])"


definition failed_data :: dataset where
  "failed_data = ex_data\<lparr>load_player_stats := Inl LoadError\<rparr>"










text \<open>
  The rows the two filters of \<^verbatim>\<open>compute_ppg\<close> keep: the season \<^verbatim>\<open>SEASON\<close>, the regular
  season, the weeks of the inclusive range.
\<close>

definition in_scope :: "int \<Rightarrow> int \<Rightarrow> int \<Rightarrow> stat_row \<Rightarrow> bool" where
  "in_scope s start_w end_w r =
     (season r = s \<and> season_type r = ''REG'' \<and> start_w \<le> week r \<and> week r \<le> end_w)"

text \<open>A name fragment that is plain text as a pattern: no special character, no dot.\<close>

definition plain_fragment :: "string \<Rightarrow> bool" where
  "plain_fragment p = list_all (\<lambda>c. \<not> re_special c \<and> c \<noteq> CHR ''.'') p"

text \<open>Two stat rows of week 1 with the names given.\<close>

definition named :: "string \<Rightarrow> stat_row" where
  "named nm = (game 1 [(''receptions'', 3)])\<lparr>player_name := Some nm\<rparr>"

section \<open>Properties\<close>

subsection \<open>Scoring\<close>






subsection \<open>Aggregation\<close>

lemma aggregate_count: "snd (aggregate joined t sc) = length (filter (\<lambda>j. t \<le> snd j) joined)"
  by (simp add: aggregate_def Let_def case_prod_unfold)


text \<open>
  C6. For fixed rows, raising the threshold never increases the qualifying game count.
\<close>

theorem qualifying_count_antitone:
  "t1 \<le> t2 \<Longrightarrow> snd (aggregate joined t2 sc) \<le> snd (aggregate joined t1 sc)"
proof -
  assume le: "t1 \<le> t2"
  have "length (filter (\<lambda>j. t2 \<le> snd j) joined) \<le> length (filter (\<lambda>j. t1 \<le> snd j) joined)"
  proof (induction joined)
    case Nil
    show ?case by simp
  next
    case (Cons j js)
    with le show ?case by auto
  qed
  then show ?thesis by (simp add: aggregate_count)
qed

text \<open>Scenario B data: the count at threshold 50 is no more than at threshold 25.\<close>

theorem qualifying_count_antitone_witness:
  "(25 :: rat) \<le> 50 \<and> snd (aggregate ex_joined 50 (preset 1)) \<le> snd (aggregate ex_joined 25 (preset 1))"
proof -
  have h: "(25 :: rat) \<le> 50" by simp
  from h qualifying_count_antitone [OF h, of ex_joined "preset 1"] show ?thesis by simp
qed

subsection \<open>Values produced by the snap join\<close>

lemma merge_left_pcts:
  "set (offense_pct_col (merge_left on ls rs)) \<subseteq> insert None (offense_pct ` set rs)"
proof (induction ls)
  case Nil
  show ?case by (simp add: offense_pct_col_def merge_left_def)
next
  case (Cons l ls)
  have "set (filter (on l) rs) \<subseteq> set rs" by simp
  then have "set (offense_pct_col (case filter (on l) rs of [] \<Rightarrow> [(l, None)]
                | m # ms \<Rightarrow> map (\<lambda>r. (l, Some r)) (m # ms)))
             \<subseteq> insert None (offense_pct ` set rs)"
    by (cases "filter (on l) rs") (auto simp: offense_pct_col_def)
  with Cons show ?case by (simp add: offense_pct_col_def merge_left_def)
qed

lemma set_scatter: "set (scatter xs ms vs) \<subseteq> set xs \<union> set vs"
proof (induction xs ms vs rule: scatter.induct)
  case (1 x xs m ms vs)
  then show ?case by (cases m; cases vs) auto
qed simp_all

lemma snd_zip_subset: "snd ` set (zip xs ys) \<subseteq> set ys"
  by (auto dest: set_zip_rightD)

lemma attach_snap_pct_values:
  assumes "attach_snap_pct cand snaps = Inr joined" and "j \<in> set joined"
  shows "snd j = 0 \<or> (\<exists>s \<in> set snaps. offense_pct s = Some (snd j))"
proof -
  define pct where "pct = offense_pct_col (merge_left primary_on cand snaps)"
  have p: "set pct \<subseteq> insert None (offense_pct ` set snaps)"
    unfolding pct_def by (rule merge_left_pcts)
  from assms(1) obtain pct' where j: "joined = zip (map fst (merge_left primary_on cand snaps)) (fillna 0 pct')"
    and p': "set pct' \<subseteq> insert None (offense_pct ` set snaps)"
  proof (cases "True \<in> set (map (\<lambda>p. p = None) pct)")
    case False
    with assms(1) have "joined = zip (map fst (merge_left primary_on cand snaps)) (fillna 0 pct)"
      by (auto simp: attach_snap_pct_def Let_def pct_def)
    with p that show ?thesis by blast
  next
    case True
    with assms(1) obtain sel where "bool_index cand (map (\<lambda>p. p = None) pct) = Inr sel"
      by (auto simp: attach_snap_pct_def Let_def pct_def split: sum.splits)
    with assms(1) True obtain q where
      q: "loc_assign pct (map (\<lambda>p. p = None) pct) (offense_pct_col (merge_left fallback_on sel snaps)) = Inr q"
      and jq: "joined = zip (map fst (merge_left primary_on cand snaps)) (fillna 0 q)"
      by (auto simp: attach_snap_pct_def Let_def pct_def split: sum.splits)
    from q have "q = scatter pct (map (\<lambda>p. p = None) pct) (offense_pct_col (merge_left fallback_on sel snaps))"
      by (auto simp: loc_assign_def split: if_splits)
    then have "set q \<subseteq> set pct \<union> set (offense_pct_col (merge_left fallback_on sel snaps))"
      using set_scatter by metis
    with p merge_left_pcts [of fallback_on sel snaps]
    have "set q \<subseteq> insert None (offense_pct ` set snaps)" by blast
    with jq that show ?thesis by blast
  qed
  from assms(2) j have "snd j \<in> set (fillna 0 pct')"
    using snd_zip_subset by fastforce
  then obtain v where v: "v \<in> set pct'" and sj: "snd j = (case v of None \<Rightarrow> 0 | Some x \<Rightarrow> x)"
    by (auto simp: fillna_def)
  show ?thesis
  proof (cases v)
    case None
    with sj show ?thesis by simp
  next
    case (Some x)
    with v p' have "Some x \<in> offense_pct ` set snaps" by blast
    with sj Some show ?thesis by (auto simp: image_iff)
  qed
qed

text \<open>
  C7. When every recorded snap percentage is non-negative, every percentage attached by
  the snap join is non-negative (a missing one is filled with 0.0), so aggregating
  the attached rows with threshold 0 counts every row.
\<close>

theorem zero_threshold_counts_every_row:
  assumes "attach_snap_pct cand snaps = Inr joined"
      and "\<forall>s \<in> set snaps. \<forall>p. offense_pct s = Some p \<longrightarrow> 0 \<le> p"
  shows "snd (aggregate joined 0 sc) = length joined"
proof -
  have "\<forall>j \<in> set joined. 0 \<le> snd j"
  proof
    fix j assume "j \<in> set joined"
    from attach_snap_pct_values [OF assms(1) this] assms(2) show "0 \<le> snd j" by auto
  qed
  then have "filter (\<lambda>j. 0 \<le> snd j) joined = joined" by (simp add: filter_id_conv)
  then show ?thesis by (simp add: aggregate_count)
qed

lemma ex_attach: "attach_snap_pct ex_cand ex_snaps = Inr ex_joined"
  by code_simp

theorem zero_threshold_counts_every_row_witness:
  "attach_snap_pct ex_cand ex_snaps = Inr ex_joined
   \<and> map offense_pct ex_snaps = [Some 10, Some 40, Some 80]
   \<and> snd (aggregate ex_joined 0 (preset 1)) = length ex_joined"
proof -
  have m: "map offense_pct ex_snaps = [Some 10, Some 40, Some 80]"
    by (simp add: ex_snaps_def snap_def)
  have h: "\<forall>s \<in> set ex_snaps. \<forall>p. offense_pct s = Some p \<longrightarrow> 0 \<le> p"
    by (auto simp: ex_snaps_def snap_def)
  from ex_attach m zero_threshold_counts_every_row [OF ex_attach h, of "preset 1"]
  show ?thesis by simp
qed

subsection \<open>The published week and the bets table\<close>



lemma ex_max_week: "get_current_max_week ex_data = 2"
  by code_simp



text \<open>
  C10. With a positive published week \<open>m\<close>, after \<^verbatim>\<open>close_completed_bets\<close> no bet of the
  current season whose end week is at most \<open>m\<close> is active. The table keeps its rows in
  place; each row differs from the old one in \<open>is_active\<close> at most; a bet of another
  season or with an end week beyond \<open>m\<close> is unchanged. When the published week is 0 (or
  less) the table is not modified.
\<close>

theorem close_completed_bets_effect:
  "length (close_completed_bets d bets) = length bets
   \<and> (\<forall>i < length bets.
        close_completed_bets d bets ! i
          = (bets ! i)\<lparr>is_active := is_active (close_completed_bets d bets ! i)\<rparr>
        \<and> ((bet_season (bets ! i) \<noteq> SEASON d
             \<or> (\<forall>e. end_week (bets ! i) = Some e \<longrightarrow> get_current_max_week d < e))
            \<longrightarrow> close_completed_bets d bets ! i = bets ! i))
   \<and> (0 < get_current_max_week d \<longrightarrow>
        (\<forall>b \<in> set (close_completed_bets d bets). \<forall>e.
           bet_season b = SEASON d \<and> end_week b = Some e \<and> e \<le> get_current_max_week d
           \<longrightarrow> is_active b \<noteq> Some 1))
   \<and> (get_current_max_week d \<le> 0 \<longrightarrow> close_completed_bets d bets = bets)"
proof (intro conjI allI impI ballI)
  show "length (close_completed_bets d bets) = length bets"
    by (simp add: close_completed_bets_def Let_def)
next
  fix i assume "i < length bets"
  then show "close_completed_bets d bets ! i
          = (bets ! i)\<lparr>is_active := is_active (close_completed_bets d bets ! i)\<rparr>"
    by (simp add: close_completed_bets_def Let_def)
next
  fix i assume "i < length bets"
    and "bet_season (bets ! i) \<noteq> SEASON d
             \<or> (\<forall>e. end_week (bets ! i) = Some e \<longrightarrow> get_current_max_week d < e)"
  then show "close_completed_bets d bets ! i = bets ! i"
    by (auto simp: close_completed_bets_def Let_def update_where_def split: option.splits)
next
  fix b e
  assume "0 < get_current_max_week d" "b \<in> set (close_completed_bets d bets)"
    "bet_season b = SEASON d \<and> end_week b = Some e \<and> e \<le> get_current_max_week d"
  then show "is_active b \<noteq> Some 1"
    by (auto simp: close_completed_bets_def Let_def update_where_def split: if_splits)
next
  assume "get_current_max_week d \<le> 0"
  then show "close_completed_bets d bets = bets"
    by (simp add: close_completed_bets_def)
qed

lemma ex_close:
  "map is_active (close_completed_bets ex_data ex_bets) = [Some 0, Some 1, Some 1, Some 0]"
  by code_simp

theorem close_completed_bets_effect_witness:
  "0 < get_current_max_week ex_data
   \<and> length (close_completed_bets ex_data ex_bets) = length ex_bets
   \<and> map is_active (close_completed_bets ex_data ex_bets) = [Some 0, Some 1, Some 1, Some 0]
   \<and> get_current_max_week failed_data \<le> 0
   \<and> close_completed_bets failed_data ex_bets = ex_bets"
proof -
  have p: "0 < get_current_max_week ex_data" by (simp add: ex_max_week)
  have z: "get_current_max_week failed_data \<le> 0"
    by (simp add: get_current_max_week_def failed_data_def)
  from close_completed_bets_effect [of ex_data ex_bets]
  have n: "length (close_completed_bets ex_data ex_bets) = length ex_bets" by blast
  from close_completed_bets_effect [of failed_data ex_bets] z
  have u: "close_completed_bets failed_data ex_bets = ex_bets" by blast
  from p n ex_close z u show ?thesis by blast
qed

subsection \<open>Empty outcomes of the pipeline\<close>






subsection \<open>The snap join with unique keys\<close>











subsection \<open>Row order\<close>













subsection \<open>Name selection\<close>

lemma re_compile_plain: "plain_fragment p \<Longrightarrow> re_compile p = Inr (map Lit p)"
  by (induction p) (simp_all add: plain_fragment_def)

lemma re_match_here_prefix: "re_match_here (map Lit p) s = prefix p s"
proof (induction p arbitrary: s)
  case Nil
  show ?case by simp
next
  case (Cons c p)
  then show ?case by (cases s) auto
qed

lemma re_search_sublist: "re_search (map Lit p) s = sublist p s"
proof (cases p)
  case Nil
  then show ?thesis by (cases s) simp_all
next
  case (Cons c cs)
  have "re_search (map Lit (c # cs)) s = sublist (c # cs) s"
  proof (induction s)
    case Nil
    show ?case by simp
  next
    case (Cons x xs)
    have "re_search (map Lit (c # cs)) (x # xs)
            = (prefix (c # cs) (x # xs) \<or> re_search (map Lit (c # cs)) xs)"
      using re_match_here_prefix [of "c # cs" "x # xs"] by simp
    with Cons show ?case by (simp only: sublist_code)
  qed
  with Cons show ?thesis by simp
qed

lemma select_by_mask:
  "map fst (filter (\<lambda>(r, m). m = Some True) (zip rs (map f rs))) = filter (\<lambda>r. f r = Some True) rs"
  by (induction rs) simp_all

text \<open>
  For a plain fragment the resolver does select by literal, case-insensitive substring
  containment among the rows in scope (provided each of them has a name).
\<close>

lemma select_candidates_plain:
  assumes "plain_fragment (py_lower pname)"
      and "\<forall>r \<in> set stats. in_scope s start_w end_w r \<longrightarrow> player_name r \<noteq> None"
  shows "select_candidates s stats pname start_w end_w
           = Inr (filter (\<lambda>r. in_scope s start_w end_w r
                              \<and> sublist (py_lower pname) (py_lower (the (player_name r)))) stats)"
proof -
  define scope where
    "scope = filter (\<lambda>r. start_w \<le> week r \<and> week r \<le> end_w)
               (filter (\<lambda>r. season r = s \<and> season_type r = ''REG'') stats)"
  define f :: "stat_row \<Rightarrow> bool option" where
    "f r = map_option (re_search (map Lit (py_lower pname))) (map_option py_lower (player_name r))" for r
  have sc: "scope = filter (in_scope s start_w end_w) stats"
    by (auto simp: scope_def in_scope_def intro: filter_cong)
  have names: "\<forall>r \<in> set scope. player_name r \<noteq> None" using assms(2) by (simp add: sc)
  then have nonone: "None \<notin> set (map f scope)" by (auto simp: f_def)
  have sel: "select_candidates s stats pname start_w end_w
      = (case str_contains (map (\<lambda>r. map_option py_lower (player_name r)) scope) (py_lower pname) of
           Inl e \<Rightarrow> Inl e
         | Inr msk \<Rightarrow>
             if None \<in> set msk then Inl ValueError
             else Inr (map fst (filter (\<lambda>(r, m). m = Some True) (zip scope msk))))"
    by (simp only: select_candidates_def Let_def scope_def)
  have str: "str_contains (map (\<lambda>r. map_option py_lower (player_name r)) scope) (py_lower pname)
      = Inr (map f scope)"
    by (simp add: str_contains_def re_compile_plain [OF assms(1)] f_def comp_def)
  have "select_candidates s stats pname start_w end_w
          = Inr (map fst (filter (\<lambda>(r, m). m = Some True) (zip scope (map f scope))))"
    using nonone by (simp only: sel str sum.case if_False)
  also have "\<dots> = Inr (filter (\<lambda>r. f r = Some True) scope)" by (simp only: select_by_mask)
  also have "filter (\<lambda>r. f r = Some True) scope
      = filter (\<lambda>r. sublist (py_lower pname) (py_lower (the (player_name r)))) scope"
    using names by (intro filter_cong) (auto simp: f_def re_search_sublist)
  finally show ?thesis by (simp add: sc conj_commute)
qed

text \<open>
  C4 fails on the code: the fragment is used as a regular expression. The fragment
  \<^verbatim>\<open>T.J\<close> selects the row named \<^verbatim>\<open>Matt Judon\<close> (the dot matches the blank), although
  \<^verbatim>\<open>t.j\<close> is not a substring of \<^verbatim>\<open>matt judon\<close>.
\<close>

theorem select_candidates_dot_fragment:
  "select_candidates 2025 [named ''T.J. Hockenson'', named ''Matt Judon'', named ''Josh Allen''] ''T.J'' 1 18
     = Inr [named ''T.J. Hockenson'', named ''Matt Judon'']
   \<and> sublist (py_lower ''T.J'') (py_lower ''T.J. Hockenson'')
   \<and> \<not> sublist (py_lower ''T.J'') (py_lower ''Matt Judon'')"
  by code_simp

end
